theory Spec2Isabelle
  imports Main "HOL-Library.Word"
begin

section \<open>IR graph nodes of torch-xla: the node base (ir.h) and the collective reduction\<close>

subsection \<open>Values the code only stores and passes on\<close>

text \<open>
  \<^verbatim>\<open>torch::lazy::hash_t\<close> is a 128-bit unsigned integer. The seed every constructor takes
  when none is given is \<^verbatim>\<open>(uint32_t)0x5a2d296e9\<close>: a 36-bit literal cut to 32 bits and then
  widened to \<^verbatim>\<open>hash_t\<close>.
\<close>

type_synonym hash_t = "128 word"

definition default_hash_seed :: "32 word" where
  "default_hash_seed = 0x5a2d296e9"

text \<open>
  An operation kind is an interned symbol; its qualified name identifies it.
  \<^verbatim>\<open>xla_cross_replica_sum\<close> is declared in ops/xla_ops.h.
\<close>

type_synonym OpKind = string

definition xla_cross_replica_sum :: OpKind where
  "xla_cross_replica_sum = ''xla::cross_replica_sum''"

text \<open>
  \<^verbatim>\<open>xla::Shape\<close>: an array shape (element type and dimensions) or a tuple of shapes.
  \<^verbatim>\<open>xla::ShapeUtil::MakeTupleShape\<close> builds the tuple from a vector of shapes.
\<close>

datatype PrimitiveType = PRED | S32 | S64 | U32 | U64 | F16 | BF16 | F32 | F64

datatype Shape = ArrayShape PrimitiveType "int list" | TupleShape "Shape list"

definition MakeTupleShape :: "Shape list \<Rightarrow> Shape" where
  "MakeTupleShape shapes = TupleShape shapes"

text \<open>
  A \<^verbatim>\<open>torch::lazy::Value\<close> names one output of a node: the node (a shared pointer, here its
  address) and the output index. \<^verbatim>\<open>xla::OpSharding\<close> is a protocol buffer the node base never
  looks into; \<^verbatim>\<open>std::shared_ptr<xla::OpSharding>\<close> is an optional one. \<^verbatim>\<open>xla::XlaOp\<close> is a
  handle of the backend builder. A \<^verbatim>\<open>double\<close> is kept as its 64 bits: the code stores the scale
  and hands it on, and computes nothing with it.
\<close>

type_synonym NodePtr = nat

record Value =
  node :: NodePtr
  index :: nat

datatype OpSharding = OpSharding string

datatype XlaOp = XlaOp int

type_synonym double = "64 word"

text \<open>
  \<^verbatim>\<open>torch::lazy::Shape\<close>, the shape of the host tensor library: a scalar type name and sizes.
  The node base stores a vector of them and never reads it.
\<close>

datatype LazyShape = LazyShape string "int list"

subsection \<open>Hashing supplied by torch::lazy\<close>

text \<open>
  The hash functions are those of \<^verbatim>\<open>torch/csrc/lazy/core/hash.h\<close>, outside this repository;
  they are parameters of the model. \<open>Value_hash\<close> is the hash of an operand reference (the
  operand node's dag hash with the output index), \<open>Sharding_hash\<close> the hash of a list of
  annotations, \<open>MHash3\<close> and \<open>MHash4\<close> are \<^verbatim>\<open>torch::lazy::MHash\<close> at the two argument lists
  the collective reduction calls it with.
\<close>

record Hashing =
  HashCombine :: "hash_t \<Rightarrow> hash_t \<Rightarrow> hash_t"
  OpKind_hash :: "OpKind \<Rightarrow> hash_t"
  Shape_hash :: "Shape \<Rightarrow> hash_t"
  Value_hash :: "Value \<Rightarrow> hash_t"
  Sharding_hash :: "OpSharding option list \<Rightarrow> hash_t"
  MHash3 :: "int \<Rightarrow> double \<Rightarrow> 64 word list list \<Rightarrow> hash_t"
  MHash4 :: "int \<Rightarrow> double \<Rightarrow> 64 word list list \<Rightarrow> bool \<Rightarrow> hash_t"

subsection \<open>The node base\<close>

text \<open>
  \<^verbatim>\<open>torch::lazy::Node\<close> holds the operation kind, the operand list, the host shapes and the
  number of outputs;
  \<^verbatim>\<open>XlaNode\<close> derives from it and adds the members declared in ir.h.
\<close>

record Node =
  op :: OpKind
  operands :: "Value list"
  shapes :: "LazyShape list"
  num_outputs :: nat

record XlaNode = Node +
  unbounded_dynamic_dims :: "32 word set"
  xla_shape :: Shape
  node_hash :: hash_t
  dag_hash :: hash_t
  sharding_hash :: hash_t
  output_shardings :: "OpSharding option list"

text \<open>
  \<^verbatim>\<open>hash()\<close>: the dag hash, combined with the sharding hash when that is not zero.
  \<^verbatim>\<open>node_hash()\<close> is the selector \<open>node_hash\<close>.
\<close>

definition hash :: "Hashing \<Rightarrow> 'a XlaNode_scheme \<Rightarrow> hash_t" where
  "hash H n =
     (if sharding_hash n \<noteq> 0 then HashCombine H (dag_hash n) (sharding_hash n)
      else dag_hash n)"

definition shapeHash :: "'a XlaNode_scheme \<Rightarrow> hash_t" where
  "shapeHash n = dag_hash n"

definition shardingHash :: "'a XlaNode_scheme \<Rightarrow> hash_t" where
  "shardingHash n = sharding_hash n"

text \<open>
  \<^verbatim>\<open>GetSharding(index)\<close>: null when the store is empty; otherwise the entry at \<open>index\<close>.
  \<^verbatim>\<open>operator[]\<close> on a vector is not checked, so an index past a non-empty store is an
  error of the model.
\<close>

datatype error = OutOfRange | EmptyOperandList | BadCast | OperandNotLowered

definition GetSharding :: "'a XlaNode_scheme \<Rightarrow> nat \<Rightarrow> error + OpSharding option" where
  "GetSharding n i =
     (if length (output_shardings n) = 0 then Inr None
      else if i < length (output_shardings n) then Inr (output_shardings n ! i)
      else Inl OutOfRange)"

definition ClearSharding :: "'a XlaNode_scheme \<Rightarrow> 'a XlaNode_scheme" where
  "ClearSharding n = n\<lparr>output_shardings := [], sharding_hash := 0\<rparr>"

definition MarkDynamicDimension :: "32 word \<Rightarrow> 'a XlaNode_scheme \<Rightarrow> 'a XlaNode_scheme" where
  "MarkDynamicDimension dim n =
     n\<lparr>unbounded_dynamic_dims := insert dim (unbounded_dynamic_dims n)\<rparr>"

definition dynamic_dims :: "'a XlaNode_scheme \<Rightarrow> 32 word set" where
  "dynamic_dims n = unbounded_dynamic_dims n"

subsection \<open>Construction and SetSharding\<close>

text \<open>
  Modelled from the spec: \<^verbatim>\<open>XlaNode::GetOpHash\<close> is declared in ir.h and defined in ir.cpp,
  which is not among the sources. The spec: the structural hash "combines operation kind +
  output shape + an operation-specific seed".
\<close>

definition GetOpHash :: "Hashing \<Rightarrow> OpKind \<Rightarrow> Shape \<Rightarrow> hash_t \<Rightarrow> hash_t" where
  "GetOpHash H opk shape hash_seed =
     HashCombine H (HashCombine H (OpKind_hash H opk) (Shape_hash H shape)) hash_seed"

text \<open>
  Modelled from the spec: the dag hash, computed by the constructors of ir.cpp. The spec: it
  "combines the structural hash with the dag hashes of all operands (and, for multi-output
  operands, the specific output index referenced)", "keyed by operand node identity and
  output index". The operands are combined in order, starting from the structural hash.
\<close>

fun GetOperandHashes :: "Hashing \<Rightarrow> Value list \<Rightarrow> hash_t \<Rightarrow> hash_t" where
  "GetOperandHashes H [] h = h"
| "GetOperandHashes H (v # vs) h = GetOperandHashes H vs (HashCombine H h (Value_hash H v))"

text \<open>
  Modelled from the spec: the constructors of \<^verbatim>\<open>XlaNode\<close>, declared in ir.h and defined in
  ir.cpp. The spec: "a node is constructed once with all identity-relevant fields fixed (kind,
  operands, shape basis, hash seed)"; construction "computes the structural hash immediately
  from kind + shape + seed, and the dag hash from structural hash + each operand's dag hash";
  the sharding hash is "zero when no annotations are present"; a shape function is "invoked
  once" and its result kept. \<open>XlaNode_ctor\<close> is the constructor taking host shapes and an
  \<^verbatim>\<open>xla::Shape\<close>, \<open>XlaNode_ctor_legacy\<close> the one without host shapes, \<open>XlaNode_ctor_legacy_fn\<close>
  the one whose shape comes from a function.
\<close>

definition XlaNode_ctor ::
  "Hashing \<Rightarrow> OpKind \<Rightarrow> Value list \<Rightarrow> LazyShape list \<Rightarrow> Shape \<Rightarrow> nat \<Rightarrow> hash_t \<Rightarrow> XlaNode" where
  "XlaNode_ctor H opk opnds lazy_shapes shape n hash_seed =
     \<lparr>op = opk, operands = opnds, shapes = lazy_shapes, num_outputs = n,
      unbounded_dynamic_dims = {}, xla_shape = shape,
      node_hash = GetOpHash H opk shape hash_seed,
      dag_hash = GetOperandHashes H opnds (GetOpHash H opk shape hash_seed),
      sharding_hash = 0, output_shardings = []\<rparr>"

definition XlaNode_ctor_legacy ::
  "Hashing \<Rightarrow> OpKind \<Rightarrow> Value list \<Rightarrow> Shape \<Rightarrow> nat \<Rightarrow> hash_t \<Rightarrow> XlaNode" where
  "XlaNode_ctor_legacy H opk opnds shape n hash_seed =
     XlaNode_ctor H opk opnds [] shape n hash_seed"

definition XlaNode_ctor_legacy_fn ::
  "Hashing \<Rightarrow> OpKind \<Rightarrow> Value list \<Rightarrow> (unit \<Rightarrow> Shape) \<Rightarrow> nat \<Rightarrow> hash_t \<Rightarrow> XlaNode" where
  "XlaNode_ctor_legacy_fn H opk opnds xla_shape_fn n hash_seed =
     XlaNode_ctor H opk opnds [] (xla_shape_fn ()) n hash_seed"

text \<open>
  Modelled from the spec: \<^verbatim>\<open>XlaNode::SetSharding\<close> and \<^verbatim>\<open>UpdateShardingHash\<close> are declared in
  ir.h and defined in ir.cpp. The spec: set_sharding(annotation, index) must "mutate the
  per-output sharding list and recompute the sharding hash"; the annotations are an
  "optional, indexed list parallel to outputs; absent entries mean no annotation for this
  output"; the sharding hash is "derived from the sharding annotation list"; a wrong output
  index is a precondition violation.
\<close>

definition SetSharding ::
  "Hashing \<Rightarrow> OpSharding \<Rightarrow> nat \<Rightarrow> 'a XlaNode_scheme \<Rightarrow> error + 'a XlaNode_scheme" where
  "SetSharding H sharding i n =
     (let store = (if length (output_shardings n) = 0 then replicate (num_outputs n) None
                   else output_shardings n)
      in if i < length store
         then Inr (n\<lparr>output_shardings := store[i := Some sharding],
                      sharding_hash := Sharding_hash H (store[i := Some sharding])\<rparr>)
         else Inl OutOfRange)"

subsection \<open>NodeCast\<close>

text \<open>
  \<^verbatim>\<open>NodeCast<T>(node, op)\<close>: null when the kinds differ. Otherwise a build with \<^verbatim>\<open>NDEBUG\<close>
  casts statically, without a check; a build without it casts dynamically to a reference,
  which throws when the object is no \<^verbatim>\<open>T\<close>. \<open>is_T\<close> tells whether the object's dynamic type is
  \<^verbatim>\<open>T\<close>; the pointer returned is the pointer given.
\<close>

definition NodeCast ::
  "bool \<Rightarrow> ('a Node_scheme \<Rightarrow> bool) \<Rightarrow> 'a Node_scheme \<Rightarrow> OpKind
     \<Rightarrow> error + 'a Node_scheme option" where
  "NodeCast NDEBUG is_T n opk =
     (if opk \<noteq> op n then Inr None
      else if NDEBUG then Inr (Some n)
      else if is_T n then Inr (Some n)
      else Inl BadCast)"

subsection \<open>The collective reduction (ops/all_reduce.cpp)\<close>

text \<open>
  \<^verbatim>\<open>AllReduceType\<close> is an enumeration declared in cross_replica_reduces.h; a value of it is
  kept as its underlying integer, which is what \<^verbatim>\<open>torch::lazy::GetEnumValue\<close> returns.
\<close>

type_synonym AllReduceType = int

definition GetEnumValue :: "AllReduceType \<Rightarrow> int" where
  "GetEnumValue reduce_type = reduce_type"

text \<open>
  Modelled from the spec: the class declaration (ops/all_reduce.h) is not among the sources.
  The members are those the constructors of all_reduce.cpp initialise. The first constructor
  leaves \<open>has_token\<close> to its default member initialiser, and \<^verbatim>\<open>Lower\<close> takes the token path for
  the nodes it builds; the spec: the operand-list form has "a trailing ordering token", the
  single-operand form has "no token".
\<close>

record AllReduce = XlaNode +
  reduce_type :: AllReduceType
  scale :: double
  groups :: "64 word list list"
  pin_layout :: bool
  has_token :: bool

definition has_token_default :: bool where
  "has_token_default = True"

text \<open>
  Modelled from the spec: \<^verbatim>\<open>GetOperandListWithToken\<close> is defined outside the sources; the
  operand list of the token form is the data operands "with a trailing ordering token".
\<close>

definition GetOperandListWithToken :: "Value list \<Rightarrow> Value \<Rightarrow> Value list" where
  "GetOperandListWithToken opnds token = opnds @ [token]"

text \<open>
  \<^verbatim>\<open>NodeOutputShape\<close>: the loop pushes the shape of every operand, then the token's shape is
  pushed, and the vector becomes a tuple shape. \<^verbatim>\<open>GetXlaShape\<close> (declared in ir.h, defined in
  ir.cpp) reads the shape of the output a value names; it is the parameter \<open>GetXlaShape\<close>.
\<close>

fun push_operand_shapes :: "(Value \<Rightarrow> Shape) \<Rightarrow> Value list \<Rightarrow> Shape list \<Rightarrow> Shape list" where
  "push_operand_shapes GetXlaShape [] tuple_shapes = tuple_shapes"
| "push_operand_shapes GetXlaShape (operand # rest) tuple_shapes =
     push_operand_shapes GetXlaShape rest (tuple_shapes @ [GetXlaShape operand])"

definition NodeOutputShape :: "(Value \<Rightarrow> Shape) \<Rightarrow> Value list \<Rightarrow> Value \<Rightarrow> Shape" where
  "NodeOutputShape GetXlaShape opnds token =
     MakeTupleShape (push_operand_shapes GetXlaShape opnds [] @ [GetXlaShape token])"

text \<open>The two constructors: the operand-list form with a token, and the single-operand form.\<close>

definition AllReduce_token ::
  "Hashing \<Rightarrow> (Value \<Rightarrow> Shape) \<Rightarrow> AllReduceType \<Rightarrow> Value list \<Rightarrow> Value \<Rightarrow> double
     \<Rightarrow> 64 word list list \<Rightarrow> bool \<Rightarrow> AllReduce" where
  "AllReduce_token H GetXlaShape rt opnds token sc grps pin =
     XlaNode.extend
       (XlaNode_ctor_legacy_fn H xla_cross_replica_sum (GetOperandListWithToken opnds token)
          (\<lambda>_. NodeOutputShape GetXlaShape opnds token)
          (length opnds + 1)
          (MHash4 H (GetEnumValue rt) sc grps pin))
       (AllReduce.fields rt sc grps pin has_token_default)"

definition AllReduce_single ::
  "Hashing \<Rightarrow> (Value \<Rightarrow> Shape) \<Rightarrow> AllReduceType \<Rightarrow> Value \<Rightarrow> double
     \<Rightarrow> 64 word list list \<Rightarrow> AllReduce" where
  "AllReduce_single H GetXlaShape rt operand sc grps =
     XlaNode.extend
       (XlaNode_ctor_legacy H xla_cross_replica_sum [operand] (GetXlaShape operand) 1
          (MHash3 H (GetEnumValue rt) sc grps))
       (AllReduce.fields rt sc grps False False)"

text \<open>
  \<^verbatim>\<open>Clone(operands)\<close>: all operands but the last are the data operands, the last is the token,
  and the node is rebuilt by the operand-list constructor. \<^verbatim>\<open>operands.end() - 1\<close> and
  \<^verbatim>\<open>operands.back()\<close> are not defined for an empty list: an error of the model.
\<close>

definition Clone ::
  "Hashing \<Rightarrow> (Value \<Rightarrow> Shape) \<Rightarrow> AllReduce \<Rightarrow> Value list \<Rightarrow> error + AllReduce" where
  "Clone H GetXlaShape n opnds =
     (if opnds = [] then Inl EmptyOperandList
      else Inr (AllReduce_token H GetXlaShape (reduce_type n) (butlast opnds) (last opnds)
                  (scale n) (groups n) (pin_layout n)))"

subsection \<open>Lowering\<close>

text \<open>
  Modelled from the spec: the lowering context (lowering_context.h) is not among the sources.
  The spec: it "maps previously lowered node outputs to backend operation handles and
  receives newly produced operation handles"; get_output_op "must already be populated" for
  every operand.
\<close>

record LoweringContext =
  emitted_outputs :: "Value \<Rightarrow> XlaOp option"

definition GetOutputOp :: "LoweringContext \<Rightarrow> Value \<Rightarrow> error + XlaOp" where
  "GetOutputOp loctx v =
     (case emitted_outputs loctx v of None \<Rightarrow> Inl OperandNotLowered | Some h \<Rightarrow> Inr h)"

text \<open>
  Modelled from the spec: \<^verbatim>\<open>XlaNode::ReturnOp\<close> and \<^verbatim>\<open>ReturnOps\<close> are declared in ir.h and
  defined in ir.cpp. The spec: a node registers "its own produced handle(s) when it calls a
  return operation with one or more backend handles", "so later nodes referencing this node
  as an operand can retrieve them". \<open>this\<close> is the address of the node being lowered.
\<close>

fun AssignOutputOps :: "NodePtr \<Rightarrow> nat \<Rightarrow> XlaOp list \<Rightarrow> LoweringContext \<Rightarrow> LoweringContext" where
  "AssignOutputOps this i [] loctx = loctx"
| "AssignOutputOps this i (h # hs) loctx =
     AssignOutputOps this (i + 1) hs
       (loctx\<lparr>emitted_outputs := (emitted_outputs loctx)(\<lparr>node = this, index = i\<rparr> \<mapsto> h)\<rparr>)"

definition ReturnOps :: "NodePtr \<Rightarrow> XlaOp list \<Rightarrow> LoweringContext \<Rightarrow> XlaOp list \<times> LoweringContext" where
  "ReturnOps this ops loctx = (ops, AssignOutputOps this 0 ops loctx)"

definition ReturnOp :: "NodePtr \<Rightarrow> XlaOp \<Rightarrow> LoweringContext \<Rightarrow> XlaOp list \<times> LoweringContext" where
  "ReturnOp this h loctx = ReturnOps this [h] loctx"

text \<open>
  The two overloads of \<^verbatim>\<open>BuildAllReduce\<close> (cross_replica_reduces.h) are the backend's; they
  are parameters of the model.
\<close>

record Builder =
  BuildAllReduce1 :: "AllReduceType \<Rightarrow> XlaOp \<Rightarrow> double \<Rightarrow> 64 word list list \<Rightarrow> XlaOp"
  BuildAllReduceN ::
    "AllReduceType \<Rightarrow> XlaOp list \<Rightarrow> XlaOp \<Rightarrow> double \<Rightarrow> 64 word list list \<Rightarrow> bool \<Rightarrow> XlaOp list"

text \<open>
  Modelled from the spec: what the token-aware backend call returns, "N+1 result handles
  (N reduced values + an updated token)".
\<close>

definition returns_values_and_token :: "Builder \<Rightarrow> bool" where
  "returns_values_and_token B \<longleftrightarrow>
     (\<forall>rt inputs token sc grps pin.
        length (BuildAllReduceN B rt inputs token sc grps pin) = length inputs + 1)"

text \<open>
  The loop of \<^verbatim>\<open>Lower\<close>: for \<open>i\<close> with \<open>i + 1 < operand_list.size()\<close>, the handle of operand \<open>i\<close>
  is pushed onto \<open>inputs\<close>.
\<close>

function lower_inputs ::
  "LoweringContext \<Rightarrow> Value list \<Rightarrow> nat \<Rightarrow> XlaOp list \<Rightarrow> error + XlaOp list" where
  "lower_inputs loctx operand_list i inputs =
     (if i + 1 < length operand_list
      then (case GetOutputOp loctx (operand_list ! i) of
              Inl e \<Rightarrow> Inl e
            | Inr h \<Rightarrow> lower_inputs loctx operand_list (i + 1) (inputs @ [h]))
      else Inr inputs)"
  by pat_completeness auto
termination
  by (relation "measure (\<lambda>(loctx, operand_list, i, inputs). length operand_list - i)") auto

text \<open>
  \<^verbatim>\<open>Lower(loctx)\<close>. Without a token: the handle of operand 0 goes to the single-input backend
  call and its result is returned by \<^verbatim>\<open>ReturnOp\<close>. With a token: the loop collects the inputs,
  the handle of the last operand is the token, and what the token-aware backend call returns
  is returned by \<^verbatim>\<open>ReturnOps\<close>. \<^verbatim>\<open>operands()[0]\<close> and \<^verbatim>\<open>operand_list.back()\<close> are not defined
  for an empty operand list: an error of the model.
\<close>

definition Lower ::
  "Builder \<Rightarrow> NodePtr \<Rightarrow> AllReduce \<Rightarrow> LoweringContext
     \<Rightarrow> error + XlaOp list \<times> LoweringContext" where
  "Lower B this n loctx =
     (if \<not> has_token n
      then (if operands n = [] then Inl EmptyOperandList
            else (case GetOutputOp loctx (operands n ! 0) of
                    Inl e \<Rightarrow> Inl e
                  | Inr h \<Rightarrow>
                      Inr (ReturnOp this
                             (BuildAllReduce1 B (reduce_type n) h (scale n) (groups n)) loctx)))
      else (case lower_inputs loctx (operands n) 0 [] of
              Inl e \<Rightarrow> Inl e
            | Inr inputs \<Rightarrow>
                (if operands n = [] then Inl EmptyOperandList
                 else (case GetOutputOp loctx (last (operands n)) of
                         Inl e \<Rightarrow> Inl e
                       | Inr token \<Rightarrow>
                           Inr (ReturnOps this
                                  (BuildAllReduceN B (reduce_type n) inputs token (scale n)
                                     (groups n) (pin_layout n))
                                  loctx)))))"

subsection \<open>Concrete parameters for evaluating the model\<close>

text \<open>
  One choice of the hash functions, of the shapes the operands have, of the backend calls and
  of a lowering context, and two nodes, on which the definitions above are evaluated. In
  \<open>example_GetXlaShape\<close> the node at address 9 is a token of shape (u32, []); every other output
  has shape (f32, [4, 4]).
\<close>

definition example_Hashing :: Hashing where
  "example_Hashing =
     \<lparr>HashCombine = (\<lambda>a b. a * 31 + b),
      OpKind_hash = (\<lambda>k. of_nat (length k)),
      Shape_hash = (\<lambda>s. case s of ArrayShape t ds \<Rightarrow> of_nat (length ds)
                              | TupleShape ss \<Rightarrow> 100 + of_nat (length ss)),
      Value_hash = (\<lambda>v. of_nat (node v) * 7 + of_nat (index v)),
      Sharding_hash = (\<lambda>xs. 1 + of_nat (length xs)),
      MHash3 = (\<lambda>rt sc g. of_int rt + 3),
      MHash4 = (\<lambda>rt sc g p. of_int rt + 4)\<rparr>"

definition example_GetXlaShape :: "Value \<Rightarrow> Shape" where
  "example_GetXlaShape v = (if node v = 9 then ArrayShape U32 [] else ArrayShape F32 [4, 4])"

definition example_Builder :: Builder where
  "example_Builder =
     \<lparr>BuildAllReduce1 = (\<lambda>rt h sc g. case h of XlaOp k \<Rightarrow> XlaOp (k + 100)),
      BuildAllReduceN =
        (\<lambda>rt hs t sc g p. map (\<lambda>h. case h of XlaOp k \<Rightarrow> XlaOp (k + 100)) hs @ [t])\<rparr>"

definition example_loctx :: LoweringContext where
  "example_loctx =
     \<lparr>emitted_outputs = (\<lambda>v. if index v = 0 then Some (XlaOp (int (node v))) else None)\<rparr>"

definition example_node :: XlaNode where
  "example_node =
     XlaNode_ctor example_Hashing ''aten::add''
       [\<lparr>node = 1, index = 0\<rparr>, \<lparr>node = 2, index = 1\<rparr>] [] (ArrayShape F32 [4, 4]) 2 5"

definition example_sharded_node :: XlaNode where
  "example_sharded_node =
     example_node\<lparr>output_shardings := [None, Some (OpSharding ''replicated'')],
                   sharding_hash := 3\<rparr>"

section \<open>Properties\<close>

subsection \<open>Helper facts\<close>

text \<open>The default seed is the low 32 bits of the literal written in ir.h.\<close>

lemma default_hash_seed_value: "default_hash_seed = 0xa2d296e9"
  by (simp add: default_hash_seed_def)

lemma ClearSharding_sharding_hash: "sharding_hash (ClearSharding n) = 0"
  by (simp add: ClearSharding_def)

lemma ClearSharding_dag_hash: "dag_hash (ClearSharding n) = dag_hash n"
  by (simp add: ClearSharding_def)

lemma SetSharding_dag_hash: "SetSharding H sharding i n = Inr n' \<Longrightarrow> dag_hash n' = dag_hash n"
  by (auto simp: SetSharding_def Let_def split: if_splits)

lemma SetSharding_in_range:
  "i < num_outputs n \<Longrightarrow> output_shardings n = [] \<Longrightarrow>
     SetSharding H sharding i n =
       Inr (n\<lparr>output_shardings := (replicate (num_outputs n) None)[i := Some sharding],
              sharding_hash :=
                Sharding_hash H ((replicate (num_outputs n) None)[i := Some sharding])\<rparr>)"
  by (simp add: SetSharding_def Let_def)

lemma example_SetSharding:
  "SetSharding example_Hashing (OpSharding ''replicated'') 1 example_node
     = Inr example_sharded_node"
  by (simp add: SetSharding_def example_sharded_node_def example_node_def XlaNode_ctor_def
      example_Hashing_def Let_def numeral_2_eq_2)

lemma push_operand_shapes_map: "push_operand_shapes g vs acc = acc @ map g vs"
  by (induction vs arbitrary: acc) simp_all

lemma NodeOutputShape_tuple:
  "NodeOutputShape g opnds token = TupleShape (map g opnds @ [g token])"
  by (simp add: NodeOutputShape_def MakeTupleShape_def push_operand_shapes_map)

lemma GetOutputOp_Some: "emitted_outputs loctx v = Some h \<Longrightarrow> GetOutputOp loctx v = Inr h"
  by (simp add: GetOutputOp_def)

text \<open>
  The loop of \<^verbatim>\<open>Lower\<close> started at index \<open>i\<close> appends the handles of the operands from \<open>i\<close> up to,
  and without, the last one.
\<close>

lemma lower_inputs_collects:
  assumes "map (emitted_outputs loctx) data = map Some hs"
  shows "i \<le> length data \<Longrightarrow>
           lower_inputs loctx (data @ [tok]) i acc = Inr (acc @ drop i hs)"
proof (induction "length data - i" arbitrary: i acc)
  case 0
  then have "i = length data" by simp
  moreover have "length hs = length data" using assms by (metis length_map)
  ultimately show ?case by simp
next
  case (Suc k)
  then have lt: "i < length data" by simp
  have len: "length hs = length data" using assms by (metis length_map)
  have "emitted_outputs loctx (data ! i) = Some (hs ! i)"
    using assms lt len by (metis nth_map)
  then have get: "GetOutputOp loctx ((data @ [tok]) ! i) = Inr (hs ! i)"
    using lt by (simp add: GetOutputOp_Some nth_append)
  have step: "lower_inputs loctx (data @ [tok]) (i + 1) (acc @ [hs ! i])
                = Inr ((acc @ [hs ! i]) @ drop (i + 1) hs)"
    using Suc.hyps(1)[of "i + 1" "acc @ [hs ! i]"] Suc.hyps(2) lt by simp
  have "drop i hs = hs ! i # drop (i + 1) hs"
    using lt len by (simp add: Cons_nth_drop_Suc)
  then show ?case using lt get step by simp
qed

lemma lower_inputs_missing:
  assumes "i < length data" and "emitted_outputs loctx (data ! i) = None"
  shows "lower_inputs loctx (data @ [tok]) i acc = Inl OperandNotLowered"
  using assms by (simp add: GetOutputOp_def nth_append)

lemma AllReduce_token_fields:
  "op (AllReduce_token H g rt opnds token sc grps pin) = xla_cross_replica_sum"
  "operands (AllReduce_token H g rt opnds token sc grps pin) = opnds @ [token]"
  "num_outputs (AllReduce_token H g rt opnds token sc grps pin) = length opnds + 1"
  "xla_shape (AllReduce_token H g rt opnds token sc grps pin)
     = TupleShape (map g opnds @ [g token])"
  "reduce_type (AllReduce_token H g rt opnds token sc grps pin) = rt"
  "scale (AllReduce_token H g rt opnds token sc grps pin) = sc"
  "groups (AllReduce_token H g rt opnds token sc grps pin) = grps"
  "pin_layout (AllReduce_token H g rt opnds token sc grps pin) = pin"
  "has_token (AllReduce_token H g rt opnds token sc grps pin) = True"
  by (simp_all add: AllReduce_token_def XlaNode.defs AllReduce.defs XlaNode_ctor_legacy_fn_def
      XlaNode_ctor_def GetOperandListWithToken_def NodeOutputShape_tuple has_token_default_def)

lemma AllReduce_single_fields:
  "op (AllReduce_single H g rt operand sc grps) = xla_cross_replica_sum"
  "operands (AllReduce_single H g rt operand sc grps) = [operand]"
  "num_outputs (AllReduce_single H g rt operand sc grps) = 1"
  "xla_shape (AllReduce_single H g rt operand sc grps) = g operand"
  "reduce_type (AllReduce_single H g rt operand sc grps) = rt"
  "scale (AllReduce_single H g rt operand sc grps) = sc"
  "groups (AllReduce_single H g rt operand sc grps) = grps"
  "pin_layout (AllReduce_single H g rt operand sc grps) = False"
  "has_token (AllReduce_single H g rt operand sc grps) = False"
  by (simp_all add: AllReduce_single_def XlaNode.defs AllReduce.defs XlaNode_ctor_legacy_def
      XlaNode_ctor_def)

subsection \<open>Clone of a token-form node\<close>

text \<open>
  Cloning a token-form node onto \<open>K\<close> data operands and a token gives the node the
  operand-list constructor builds from them with the original's parameters; its operand
  list is the one given, and it has as many outputs as operands.
\<close>

lemma Clone_token_form:
  "Clone H g (AllReduce_token H g rt opnds token sc grps pin) (opnds' @ [token'])
     = Inr (AllReduce_token H g rt opnds' token' sc grps pin)"
  by (simp add: Clone_def AllReduce_token_fields)

lemma Clone_counts:
  assumes "Clone H g n opnds = Inr c"
  shows "operands c = opnds \<and> num_outputs c = length opnds \<and> has_token c
         \<and> xla_shape c = TupleShape (map g opnds)"
proof -
  have ne: "opnds \<noteq> []" using assms by (auto simp: Clone_def split: if_splits)
  then have c: "c = AllReduce_token H g (reduce_type n) (butlast opnds) (last opnds)
                      (scale n) (groups n) (pin_layout n)"
    using assms by (simp add: Clone_def)
  have "map g (butlast opnds) @ [g (last opnds)] = map g (butlast opnds @ [last opnds])"
    by simp
  also have "\<dots> = map g opnds" using ne by simp
  finally have "map g (butlast opnds) @ [g (last opnds)] = map g opnds" .
  moreover have "length (butlast opnds) + 1 = length opnds" using ne by simp
  ultimately show ?thesis using ne by (simp add: c AllReduce_token_fields)
qed

text \<open>
  Cloning a node of the single-operand form does not give that form back: the clone is built
  by the operand-list constructor, with no data operand and the given operand as the token.
\<close>

lemma Clone_single_form:
  "Clone H g (AllReduce_single H g rt operand sc grps) [operand']
     = Inr (AllReduce_token H g rt [] operand' sc grps False)"
  by (simp add: Clone_def AllReduce_single_fields)

lemma Clone_never_single_form:
  "Clone H g n opnds \<noteq> Inr (AllReduce_single H' g' rt operand sc grps)"
proof
  assume "Clone H g n opnds = Inr (AllReduce_single H' g' rt operand sc grps)"
  then have "has_token (AllReduce_single H' g' rt operand sc grps)"
    using Clone_counts by blast
  then show False by (simp add: AllReduce_single_fields)
qed

subsection \<open>The claims\<close>

text \<open>
  Claim C1. Two nodes constructed with the same operation kind, the same operands (node and
  output index), the same output shape and the same hash seed have equal structural hashes
  and equal dag hashes, whatever their host shapes and numbers of outputs are.
\<close>

theorem XlaNode_hashes_deterministic:
  assumes "opk1 = opk2" and "opnds1 = opnds2" and "shape1 = shape2" and "seed1 = seed2"
  shows "node_hash (XlaNode_ctor H opk1 opnds1 ls1 shape1 n1 seed1)
           = node_hash (XlaNode_ctor H opk2 opnds2 ls2 shape2 n2 seed2)
       \<and> dag_hash (XlaNode_ctor H opk1 opnds1 ls1 shape1 n1 seed1)
           = dag_hash (XlaNode_ctor H opk2 opnds2 ls2 shape2 n2 seed2)"
  using assms by (simp add: XlaNode_ctor_def)

theorem XlaNode_hashes_deterministic_witness:
  "node_hash (XlaNode_ctor example_Hashing ''aten::add''
                [\<lparr>node = 1, index = 0\<rparr>, \<lparr>node = 2, index = 1\<rparr>] [] (ArrayShape F32 [4, 4]) 1 5)
     = node_hash (XlaNode_ctor example_Hashing ''aten::add''
                [\<lparr>node = 1, index = 0\<rparr>, \<lparr>node = 2, index = 1\<rparr>]
                [LazyShape ''Float'' [4, 4]] (ArrayShape F32 [4, 4]) 2 5)
   \<and> dag_hash (XlaNode_ctor example_Hashing ''aten::add''
                [\<lparr>node = 1, index = 0\<rparr>, \<lparr>node = 2, index = 1\<rparr>] [] (ArrayShape F32 [4, 4]) 1 5)
     = dag_hash (XlaNode_ctor example_Hashing ''aten::add''
                [\<lparr>node = 1, index = 0\<rparr>, \<lparr>node = 2, index = 1\<rparr>]
                [LazyShape ''Float'' [4, 4]] (ArrayShape F32 [4, 4]) 2 5)"
  by (rule XlaNode_hashes_deterministic) simp_all

text \<open>
  Claim C2. For every node, \<^verbatim>\<open>hash()\<close> is the dag hash when the sharding hash is zero, and
  otherwise \<^verbatim>\<open>HashCombine\<close> of the dag hash and the sharding hash.
\<close>

theorem hash_dag_or_combined:
  "(shardingHash n = 0 \<longrightarrow> hash H n = dag_hash n)
   \<and> (shardingHash n \<noteq> 0 \<longrightarrow> hash H n = HashCombine H (dag_hash n) (shardingHash n))"
  by (simp add: hash_def shardingHash_def)

theorem hash_dag_or_combined_witness:
  "shardingHash example_node = 0
   \<and> hash example_Hashing example_node = dag_hash example_node
   \<and> shardingHash example_sharded_node \<noteq> 0
   \<and> hash example_Hashing example_sharded_node
       = HashCombine example_Hashing (dag_hash example_sharded_node)
           (shardingHash example_sharded_node)"
  using hash_dag_or_combined [of example_node example_Hashing]
    hash_dag_or_combined [of example_sharded_node example_Hashing]
  by (simp add: shardingHash_def example_sharded_node_def example_node_def XlaNode_ctor_def)

text \<open>
  Claim C3. Changing only the sharding annotations of a node, by \<^verbatim>\<open>SetSharding\<close> or by
  \<^verbatim>\<open>ClearSharding\<close>, never changes \<^verbatim>\<open>shapeHash()\<close>: the dag hash does not depend on the sharding
  store or on the sharding hash.
\<close>

theorem sharding_keeps_shapeHash:
  "shapeHash (ClearSharding n) = shapeHash n
   \<and> (SetSharding H sharding i n = Inr n' \<longrightarrow> shapeHash n' = shapeHash n)
   \<and> shapeHash (n\<lparr>output_shardings := store, sharding_hash := h\<rparr>) = shapeHash n"
  by (auto simp: shapeHash_def ClearSharding_dag_hash SetSharding_dag_hash)

theorem sharding_keeps_shapeHash_witness:
  "SetSharding example_Hashing (OpSharding ''replicated'') 1 example_node
     = Inr example_sharded_node
   \<and> shapeHash example_sharded_node = shapeHash example_node
   \<and> shapeHash (ClearSharding example_sharded_node) = shapeHash example_sharded_node"
proof -
  note set = example_SetSharding
  have "shapeHash example_sharded_node = shapeHash example_node"
    using sharding_keeps_shapeHash [of example_node example_Hashing "OpSharding ''replicated''" 1
        example_sharded_node] set
    by blast
  moreover have "shapeHash (ClearSharding example_sharded_node) = shapeHash example_sharded_node"
    using sharding_keeps_shapeHash [of example_sharded_node] by blast
  ultimately show ?thesis using set by blast
qed

text \<open>
  Claim C4. After \<^verbatim>\<open>ClearSharding()\<close> the sharding hash is zero and \<^verbatim>\<open>hash()\<close> equals
  \<^verbatim>\<open>shapeHash()\<close>. Setting an annotation and then clearing gives the node the \<^verbatim>\<open>hash()\<close> of
  any unsharded node with the same dag hash.
\<close>

theorem ClearSharding_restores_identity:
  "shardingHash (ClearSharding n) = 0
   \<and> hash H (ClearSharding n) = shapeHash (ClearSharding n)
   \<and> (SetSharding H sharding i n = Inr n' \<longrightarrow> shardingHash m = 0 \<longrightarrow>
        shapeHash m = shapeHash n \<longrightarrow> hash H (ClearSharding n') = hash H m)"
  by (auto simp: shapeHash_def shardingHash_def hash_def ClearSharding_sharding_hash
      ClearSharding_dag_hash SetSharding_dag_hash)

theorem ClearSharding_restores_identity_witness:
  "SetSharding example_Hashing (OpSharding ''replicated'') 1 example_node
     = Inr example_sharded_node
   \<and> shardingHash example_node = 0
   \<and> hash example_Hashing example_sharded_node \<noteq> hash example_Hashing example_node
   \<and> hash example_Hashing (ClearSharding example_sharded_node)
       = hash example_Hashing example_node"
proof -
  note set = example_SetSharding
  have zero: "shardingHash example_node = 0"
    by (simp add: shardingHash_def example_node_def XlaNode_ctor_def)
  have differ: "hash example_Hashing example_sharded_node \<noteq> hash example_Hashing example_node"
    by (simp add: hash_def example_sharded_node_def example_node_def XlaNode_ctor_def
        example_Hashing_def GetOpHash_def)
  have "hash example_Hashing (ClearSharding example_sharded_node)
          = hash example_Hashing example_node"
    using ClearSharding_restores_identity [of example_node example_Hashing
        "OpSharding ''replicated''" 1 example_sharded_node example_node] set zero
    by blast
  then show ?thesis using set zero differ by blast
qed

text \<open>
  Claim C6. Lowering a node without a token, whose operand has been lowered, returns exactly
  one handle. Lowering a node with a token, \<open>K\<close> data operands and the token operand last, all
  of them lowered, gives the backend call the handles of the first \<open>K\<close> operands as inputs
  and the handle of the last operand as token, and returns what that call returns: \<open>K + 1\<close>
  handles, when the backend call returns a handle for each input and one for the token.
\<close>

theorem Lower_result_handles:
  "(\<not> has_token n \<longrightarrow> operands n = v # vs \<longrightarrow> emitted_outputs loctx v = Some h \<longrightarrow>
      (\<exists>res loctx'. Lower B this n loctx = Inr (res, loctx')
         \<and> res = [BuildAllReduce1 B (reduce_type n) h (scale n) (groups n)] \<and> length res = 1))
   \<and> (has_token n \<longrightarrow> operands n = data @ [tok] \<longrightarrow>
        map (emitted_outputs loctx) data = map Some hs \<longrightarrow>
        emitted_outputs loctx tok = Some t \<longrightarrow> returns_values_and_token B \<longrightarrow>
      (\<exists>res loctx'. Lower B this n loctx = Inr (res, loctx')
         \<and> res = BuildAllReduceN B (reduce_type n) hs t (scale n) (groups n) (pin_layout n)
         \<and> length res = length data + 1))"
proof (intro conjI impI)
  assume "\<not> has_token n" and "operands n = v # vs" and "emitted_outputs loctx v = Some h"
  then show "\<exists>res loctx'. Lower B this n loctx = Inr (res, loctx')
         \<and> res = [BuildAllReduce1 B (reduce_type n) h (scale n) (groups n)] \<and> length res = 1"
    by (simp add: Lower_def GetOutputOp_Some ReturnOp_def ReturnOps_def)
next
  assume tk: "has_token n" and ops: "operands n = data @ [tok]"
    and hs: "map (emitted_outputs loctx) data = map Some hs"
    and t: "emitted_outputs loctx tok = Some t" and B: "returns_values_and_token B"
  have len: "length hs = length data" using hs by (metis length_map)
  have ins: "lower_inputs loctx (operands n) 0 [] = Inr hs"
    using lower_inputs_collects [OF hs, of 0 tok "[]"] ops by simp
  have "length (BuildAllReduceN B (reduce_type n) hs t (scale n) (groups n) (pin_layout n))
          = length data + 1"
    using B len by (simp add: returns_values_and_token_def)
  then show "\<exists>res loctx'. Lower B this n loctx = Inr (res, loctx')
         \<and> res = BuildAllReduceN B (reduce_type n) hs t (scale n) (groups n) (pin_layout n)
         \<and> length res = length data + 1"
    using tk ops t ins by (simp add: Lower_def GetOutputOp_Some ReturnOps_def)
qed

lemma example_Builder_returns_values_and_token: "returns_values_and_token example_Builder"
  by (simp add: returns_values_and_token_def example_Builder_def)

theorem Lower_result_handles_witness:
  "(\<exists>res loctx'.
      Lower example_Builder 7
        (AllReduce_single example_Hashing example_GetXlaShape 0 \<lparr>node = 1, index = 0\<rparr>
           0x3FF0000000000000 [[0, 1], [2, 3]])
        example_loctx = Inr (res, loctx')
      \<and> res = [XlaOp 101] \<and> length res = 1)
   \<and> (\<exists>res loctx'.
      Lower example_Builder 8
        (AllReduce_token example_Hashing example_GetXlaShape 0
           [\<lparr>node = 1, index = 0\<rparr>, \<lparr>node = 2, index = 0\<rparr>, \<lparr>node = 3, index = 0\<rparr>]
           \<lparr>node = 9, index = 0\<rparr> 0x3FF0000000000000 [[0, 1], [2, 3]] False)
        example_loctx = Inr (res, loctx')
      \<and> res = [XlaOp 101, XlaOp 102, XlaOp 103, XlaOp 9] \<and> length res = 4)"
proof -
  let ?v1 = "\<lparr>node = 1, index = 0\<rparr>" and ?v2 = "\<lparr>node = 2, index = 0\<rparr>"
  let ?v3 = "\<lparr>node = 3, index = 0\<rparr>" and ?tok = "\<lparr>node = 9, index = 0\<rparr>"
  let ?single = "AllReduce_single example_Hashing example_GetXlaShape 0 ?v1
                   0x3FF0000000000000 [[0, 1], [2, 3]]"
  let ?token = "AllReduce_token example_Hashing example_GetXlaShape 0 [?v1, ?v2, ?v3] ?tok
                  0x3FF0000000000000 [[0, 1], [2, 3]] False"
  have s1: "\<not> has_token ?single" and s2: "operands ?single = ?v1 # []"
    by (simp_all add: AllReduce_single_fields)
  have s3: "emitted_outputs example_loctx ?v1 = Some (XlaOp 1)"
    by (simp add: example_loctx_def)
  have t1: "has_token ?token" and t2: "operands ?token = [?v1, ?v2, ?v3] @ [?tok]"
    by (simp_all add: AllReduce_token_fields)
  have t3: "map (emitted_outputs example_loctx) [?v1, ?v2, ?v3]
              = map Some [XlaOp 1, XlaOp 2, XlaOp 3]"
    by (simp add: example_loctx_def)
  have t4: "emitted_outputs example_loctx ?tok = Some (XlaOp 9)"
    by (simp add: example_loctx_def)
  have "\<exists>res loctx'. Lower example_Builder 7 ?single example_loctx = Inr (res, loctx')
          \<and> res = [BuildAllReduce1 example_Builder (reduce_type ?single) (XlaOp 1)
                      (scale ?single) (groups ?single)]
          \<and> length res = 1"
    using Lower_result_handles [of ?single ?v1 "[]" example_loctx "XlaOp 1" example_Builder 7]
      s1 s2 s3
    by blast
  then have single: "\<exists>res loctx'. Lower example_Builder 7 ?single example_loctx
                        = Inr (res, loctx') \<and> res = [XlaOp 101] \<and> length res = 1"
    by (simp add: example_Builder_def)
  have "\<exists>res loctx'. Lower example_Builder 8 ?token example_loctx = Inr (res, loctx')
          \<and> res = BuildAllReduceN example_Builder (reduce_type ?token)
                      [XlaOp 1, XlaOp 2, XlaOp 3] (XlaOp 9) (scale ?token) (groups ?token)
                      (pin_layout ?token)
          \<and> length res = length [?v1, ?v2, ?v3] + 1"
    using Lower_result_handles [of ?token _ _ example_loctx _ example_Builder 8
        "[?v1, ?v2, ?v3]" ?tok "[XlaOp 1, XlaOp 2, XlaOp 3]" "XlaOp 9"]
      t1 t2 t3 t4 example_Builder_returns_values_and_token
    by blast
  then have token: "\<exists>res loctx'. Lower example_Builder 8 ?token example_loctx
                       = Inr (res, loctx')
                     \<and> res = [XlaOp 101, XlaOp 102, XlaOp 103, XlaOp 9] \<and> length res = 4"
    by (simp add: example_Builder_def)
  show ?thesis using single token by blast
qed

text \<open>
  Claim C7. A token-form node built from \<open>N\<close> data operands and a token has \<open>N + 1\<close> outputs,
  and its shape is the tuple of the data operands' shapes, in order, followed by the token's
  shape.
\<close>

theorem AllReduce_token_outputs_and_shape:
  "num_outputs (AllReduce_token H GetXlaShape rt opnds token sc grps pin) = length opnds + 1
   \<and> xla_shape (AllReduce_token H GetXlaShape rt opnds token sc grps pin)
       = TupleShape (map GetXlaShape opnds @ [GetXlaShape token])"
  by (simp add: AllReduce_token_fields)

text \<open>
  The example of the claim: three operands of shape (f32, [4, 4]), a token of shape (u32, []),
  scale 1.0, groups [[0, 1], [2, 3]], no pinned layout.
\<close>

lemma AllReduce_token_example:
  "num_outputs (AllReduce_token example_Hashing example_GetXlaShape 0
      [\<lparr>node = 1, index = 0\<rparr>, \<lparr>node = 2, index = 0\<rparr>, \<lparr>node = 3, index = 0\<rparr>]
      \<lparr>node = 9, index = 0\<rparr> 0x3FF0000000000000 [[0, 1], [2, 3]] False) = 4
   \<and> xla_shape (AllReduce_token example_Hashing example_GetXlaShape 0
      [\<lparr>node = 1, index = 0\<rparr>, \<lparr>node = 2, index = 0\<rparr>, \<lparr>node = 3, index = 0\<rparr>]
      \<lparr>node = 9, index = 0\<rparr> 0x3FF0000000000000 [[0, 1], [2, 3]] False)
     = TupleShape [ArrayShape F32 [4, 4], ArrayShape F32 [4, 4], ArrayShape F32 [4, 4],
                   ArrayShape U32 []]"
  by (simp add: AllReduce_token_fields example_GetXlaShape_def)

text \<open>
  Claim C8. \<^verbatim>\<open>NodeCast\<close> returns null when the node's kind differs from the expected kind; a
  pointer it returns is the pointer given, and then the kinds are equal; with equal kinds it
  never returns null.
\<close>

theorem NodeCast_checks_kind:
  "(opk \<noteq> op n \<longrightarrow> NodeCast NDEBUG is_T n opk = Inr None)
   \<and> (NodeCast NDEBUG is_T n opk = Inr (Some p) \<longrightarrow> opk = op n \<and> p = n)
   \<and> (opk = op n \<longrightarrow> NodeCast NDEBUG is_T n opk \<noteq> Inr None)"
  by (auto simp: NodeCast_def split: if_splits)

theorem NodeCast_checks_kind_witness:
  "NodeCast False (\<lambda>n. True) example_node ''xla::cross_replica_sum'' = Inr None
   \<and> NodeCast False (\<lambda>n. True) example_node ''aten::add'' = Inr (Some example_node)
   \<and> ''aten::add'' = op example_node"
  using NodeCast_checks_kind [of "''xla::cross_replica_sum''" example_node False "\<lambda>n. True"]
    NodeCast_checks_kind [of "''aten::add''" example_node False "\<lambda>n. True" example_node]
  by (simp add: NodeCast_def example_node_def XlaNode_ctor_def)

text \<open>
  Claim C9. \<^verbatim>\<open>MarkDynamicDimension(d)\<close> is idempotent: marking twice leaves the set of dynamic
  dimensions, and the whole node, as marking once does. It changes none of \<^verbatim>\<open>hash()\<close>,
  \<^verbatim>\<open>shapeHash()\<close>, \<^verbatim>\<open>node_hash()\<close> and \<^verbatim>\<open>shardingHash()\<close>.
\<close>

theorem MarkDynamicDimension_idempotent_hash_neutral:
  "dynamic_dims (MarkDynamicDimension d (MarkDynamicDimension d n))
     = dynamic_dims (MarkDynamicDimension d n)
   \<and> MarkDynamicDimension d (MarkDynamicDimension d n) = MarkDynamicDimension d n
   \<and> hash H (MarkDynamicDimension d n) = hash H n
   \<and> shapeHash (MarkDynamicDimension d n) = shapeHash n
   \<and> node_hash (MarkDynamicDimension d n) = node_hash n
   \<and> shardingHash (MarkDynamicDimension d n) = shardingHash n"
  by (simp add: MarkDynamicDimension_def dynamic_dims_def hash_def shapeHash_def
      shardingHash_def)

text \<open>
  Claim C10. With an empty sharding store, as it is after \<^verbatim>\<open>ClearSharding()\<close>, \<^verbatim>\<open>GetSharding\<close>
  returns null for every index, also for an index at or past the number of outputs.
\<close>

theorem GetSharding_empty_store:
  "(output_shardings n = [] \<longrightarrow> GetSharding n i = Inr None)
   \<and> GetSharding (ClearSharding n) i = Inr None"
  by (simp add: GetSharding_def ClearSharding_def)

theorem GetSharding_empty_store_witness:
  "output_shardings example_node = [] \<and> num_outputs example_node = 2
   \<and> GetSharding example_node 5 = Inr None
   \<and> GetSharding (ClearSharding example_sharded_node) 5 = Inr None"
  using GetSharding_empty_store [of example_node 5]
    GetSharding_empty_store [of example_sharded_node 5]
  by (simp add: example_node_def XlaNode_ctor_def)

text \<open>
  Claim C5, at a node of the single-operand form. The node has no token and the shape of its
  operand. Its clone onto the same operand is the node the operand-list constructor builds
  from no data operand and that operand as the token: it has a token, a tuple shape and a
  seed hashed from four parameters, and is not the node cloned. Lowering the original hands
  the operand's handle to the single-input backend call; lowering the clone hands it to the
  token-aware call as the token, with no input.
\<close>

theorem Clone_single_operand_form_becomes_token_form:
  "Clone example_Hashing example_GetXlaShape
     (AllReduce_single example_Hashing example_GetXlaShape 0 \<lparr>node = 1, index = 0\<rparr>
        0x3FF0000000000000 [[0, 1], [2, 3]])
     [\<lparr>node = 1, index = 0\<rparr>]
   = Inr (AllReduce_token example_Hashing example_GetXlaShape 0 [] \<lparr>node = 1, index = 0\<rparr>
            0x3FF0000000000000 [[0, 1], [2, 3]] False)
   \<and> has_token (AllReduce_token example_Hashing example_GetXlaShape 0 []
        \<lparr>node = 1, index = 0\<rparr> 0x3FF0000000000000 [[0, 1], [2, 3]] False)
   \<and> \<not> has_token (AllReduce_single example_Hashing example_GetXlaShape 0
        \<lparr>node = 1, index = 0\<rparr> 0x3FF0000000000000 [[0, 1], [2, 3]])
   \<and> xla_shape (AllReduce_token example_Hashing example_GetXlaShape 0 []
        \<lparr>node = 1, index = 0\<rparr> 0x3FF0000000000000 [[0, 1], [2, 3]] False)
       = TupleShape [ArrayShape F32 [4, 4]]
   \<and> xla_shape (AllReduce_single example_Hashing example_GetXlaShape 0
        \<lparr>node = 1, index = 0\<rparr> 0x3FF0000000000000 [[0, 1], [2, 3]])
       = ArrayShape F32 [4, 4]
   \<and> map_sum id fst (Lower example_Builder 7
        (AllReduce_single example_Hashing example_GetXlaShape 0
           \<lparr>node = 1, index = 0\<rparr> 0x3FF0000000000000 [[0, 1], [2, 3]])
        example_loctx) = Inr [XlaOp 101]
   \<and> map_sum id fst (Lower example_Builder 7
        (AllReduce_token example_Hashing example_GetXlaShape 0 []
           \<lparr>node = 1, index = 0\<rparr> 0x3FF0000000000000 [[0, 1], [2, 3]] False)
        example_loctx) = Inr [XlaOp 1]"
  by (simp add: Clone_single_form AllReduce_single_fields AllReduce_token_fields
      example_GetXlaShape_def Lower_def GetOutputOp_def ReturnOp_def ReturnOps_def
      example_loctx_def example_Builder_def)

end
